theory Spec2Isabelle
  imports Complex_Main "HOL-Library.Sublist"
begin

section \<open>Data model\<close>

text \<open>
  The marketplace backend keeps its documents in collections of a document store. A
  collection is modelled as a list and the \<open>_id\<close> of a document is its position in that
  list, so \<open>findById\<close> is a bounds-checked lookup and \<open>save\<close> is a list update. JavaScript
  numbers that hold money are modelled as exact reals, dates as integer milliseconds since
  the epoch, and status fields as the strings the code compares them with. An absent
  (\<open>undefined\<close>) value is \<open>None\<close>, and so is a number that is \<open>NaN\<close>. Records hold the
  schema paths that the handlers read and write; the bookkeeping stamps \<open>createdAt\<close> and
  \<open>updatedAt\<close> are left out. Stored documents are taken to satisfy their schema, so saving
  an existing document succeeds unless the handler has put \<open>NaN\<close> into a number path; a
  new document is validated against its schema before it is written. The payment gateways
  and the notification service are collaborators outside the model; what a gateway
  returns is a parameter of the handler that uses it.
\<close>

type_synonym time = int
type_synonym oid = nat

text \<open>
  A handler reads the system clock several times (\<open>new Date()\<close>, \<open>Date.now()\<close>, the schema
  default of a history entry). A \<open>clock\<close> gives the successive readings made while one
  request is served: reading number \<open>k\<close>, in program order.
\<close>

type_synonym clock = "nat \<Rightarrow> time"

definition later :: "nat \<Rightarrow> clock \<Rightarrow> clock" where
  "later n clk = (\<lambda>k. clk (k + n))"

datatype role = Client | Provider | Admin

subsection \<open>User and wallet (models/User.js)\<close>

record wallet =
  balance :: real
  pendingBalance :: real
  totalEarnings :: real

record providerInfo =
  isActivated :: bool
  activationFeePaid :: bool
  wallet :: wallet

record user =
  firebaseUid :: string
  role :: role
  providerInfo :: providerInfo

definition addEarnings :: "real \<Rightarrow> user \<Rightarrow> user" where
  "addEarnings amount u =
     (if role u = Provider
      then providerInfo_update (wallet_update (\<lambda>w.
             w\<lparr>balance := balance w + amount,
               totalEarnings := totalEarnings w + amount\<rparr>)) u
      else u)"

definition addPendingEarnings :: "real \<Rightarrow> user \<Rightarrow> user" where
  "addPendingEarnings amount u =
     (if role u = Provider
      then providerInfo_update (wallet_update (\<lambda>w.
             w\<lparr>pendingBalance := pendingBalance w + amount\<rparr>)) u
      else u)"

definition confirmEarnings :: "real \<Rightarrow> user \<Rightarrow> user" where
  "confirmEarnings amount u =
     (if role u = Provider
      then providerInfo_update (wallet_update (\<lambda>w.
             w\<lparr>pendingBalance := pendingBalance w - amount,
               balance := balance w + amount\<rparr>)) u
      else u)"

subsection \<open>Booking (models/Booking.js)\<close>

record pricing =
  servicePrice :: real
  addOnsPrice :: real
  platformFee :: real
  totalAmount :: real

record status_entry =
  h_status :: string
  h_timestamp :: time
  h_updatedBy :: oid
  h_reason :: string

record provider_response =
  accepted :: bool
  respondedAt :: time
  message :: "string option"
  suggestedTime :: "string option"

record execution =
  startedAt :: "time option"
  completedAt :: "time option"
  actualDuration :: "int option"
  workPhotos :: "string list"
  completionNotes :: "string option"

record payment_info =
  pay_status :: string
  pay_paidAt :: "time option"

record confirmation =
  clientConfirmed :: bool
  confirmedAt :: "time option"
  autoConfirmAt :: "time option"
  confirmationMethod :: "string option"

record resolution =
  resolvedBy :: oid
  resolvedAt :: time
  resolution_text :: string
  refundAmount :: real

record dispute =
  isDisputed :: bool
  disputedBy :: "oid option"
  disputedAt :: "time option"
  d_reason :: "string option"
  description :: "string option"
  evidence :: "string list"
  resolution :: "resolution option"

record cancellation =
  cancelledBy :: oid
  cancelledAt :: time
  c_reason :: string

record booking =
  bookingId :: string
  client :: oid
  provider :: oid
  service :: oid
  scheduledDate :: time
  pricing :: pricing
  status :: string
  statusHistory :: "status_entry list"
  providerResponse :: "provider_response option"
  execution :: execution
  payment :: payment_info
  confirmation :: confirmation
  dispute :: dispute
  cancellation :: "cancellation option"

definition hours48 :: int where
  "hours48 = 48 * 60 * 60 * 1000"

text \<open>
  \<open>updateStatus\<close> pushes one history entry holding the status the booking has before the
  change (its timestamp is the schema default \<open>Date.now\<close>, clock reading 0), then sets the
  status; for the target \<open>completed\<close> it also stamps \<open>completedAt\<close> (reading 1) and the
  auto-confirm deadline (reading 2 plus 48 hours).
\<close>

definition updateStatus :: "string \<Rightarrow> oid \<Rightarrow> string \<Rightarrow> clock \<Rightarrow> booking \<Rightarrow> booking" where
  "updateStatus newStatus updatedBy reason clk b =
     (let b1 = b\<lparr>statusHistory := statusHistory b @
                   [\<lparr>h_status = status b, h_timestamp = clk 0,
                     h_updatedBy = updatedBy, h_reason = reason\<rparr>]\<rparr>;
          b2 = b1\<lparr>status := newStatus\<rparr>
      in if newStatus = ''completed''
         then b2\<lparr>execution := (execution b2)\<lparr>completedAt := Some (clk 1)\<rparr>,
                 confirmation := (confirmation b2)\<lparr>autoConfirmAt := Some (clk 2 + hours48)\<rparr>\<rparr>
         else b2)"

definition canBeCancelled :: "time \<Rightarrow> booking \<Rightarrow> bool" where
  "canBeCancelled now b =
     (let hoursDifference = real_of_int (scheduledDate b - now) / (1000 * 60 * 60)
      in status b \<in> {''pending'', ''accepted''} \<and> hoursDifference > 2)"

definition shouldAutoConfirm :: "time \<Rightarrow> booking \<Rightarrow> bool" where
  "shouldAutoConfirm now b =
     (status b = ''completed'' \<and> \<not> clientConfirmed (confirmation b) \<and>
      (case autoConfirmAt (confirmation b) of
         None \<Rightarrow> False
       | Some t \<Rightarrow> now \<ge> t))"

subsection \<open>Service, payment and the document store\<close>

record service_doc =
  completedBookings :: nat

definition incrementCompleted :: "service_doc \<Rightarrow> service_doc" where
  "incrementCompleted s = s\<lparr>completedBookings := completedBookings s + 1\<rparr>"

text \<open>
  A payment document with the paths of the Payment schema (unnamed/part_000) that matter
  here. The schema is strict: what a route passes under a name that is not a schema path
  (\<open>paymentMethod\<close>, and the \<open>metadata\<close> entries \<open>type\<close>, \<open>bookingId\<close>, \<open>platformFee\<close>,
  \<open>providerAmount\<close>, \<open>withdrawalFee\<close>) is not part of the document. \<open>paymentId\<close>, \<open>type\<close>,
  \<open>user\<close>, \<open>amount\<close> and \<open>method\<close> are required, and \<open>type\<close>, \<open>method\<close> and \<open>status\<close> are
  enumerations.
\<close>

record payment_doc =
  p_paymentId :: "string option"
  p_type :: string
  p_user :: oid
  p_booking :: "oid option"
  p_amount :: "real option"
  p_currency :: string
  p_method :: "string option"
  p_status :: string
  p_transactionId :: "string option"
  p_description :: "string option"

definition validate_payment :: "payment_doc \<Rightarrow> bool" where
  "validate_payment p =
     (p_paymentId p \<noteq> None \<and>
      p_type p \<in> {''activation_fee'', ''booking_payment'', ''subscription'', ''withdrawal'',
                  ''refund''} \<and>
      p_amount p \<noteq> None \<and>
      (case p_method p of
         None \<Rightarrow> False
       | Some m \<Rightarrow> m \<in> {''vodafone_cash'', ''etisalat_cash'', ''orange_money'', ''we_pay'',
                         ''stripe'', ''paypal'', ''bank_transfer''}) \<and>
      p_status p \<in> {''pending'', ''processing'', ''completed'', ''failed'', ''cancelled'',
                    ''refunded''})"

record world =
  users :: "user list"
  bookings :: "booking list"
  services :: "service_doc list"
  payments :: "payment_doc list"

definition findById :: "oid \<Rightarrow> 'a list \<Rightarrow> 'a option" where
  "findById i xs = (if i < length xs then Some (xs ! i) else None)"

text \<open>\<open>findOne\<close> with a filter: the position and document of the first match.\<close>

primrec findOne_from :: "nat \<Rightarrow> ('a \<Rightarrow> bool) \<Rightarrow> 'a list \<Rightarrow> (nat \<times> 'a) option" where
  "findOne_from k P [] = None"
| "findOne_from k P (x # xs) = (if P x then Some (k, x) else findOne_from (Suc k) P xs)"

definition findOne :: "('a \<Rightarrow> bool) \<Rightarrow> 'a list \<Rightarrow> (nat \<times> 'a) option" where
  "findOne P xs = findOne_from 0 P xs"

definition save_booking :: "oid \<Rightarrow> booking \<Rightarrow> world \<Rightarrow> world" where
  "save_booking bid b w = w\<lparr>bookings := (bookings w)[bid := b]\<rparr>"

definition save_user :: "oid \<Rightarrow> user \<Rightarrow> world \<Rightarrow> world" where
  "save_user i u w = w\<lparr>users := (users w)[i := u]\<rparr>"

definition save_service :: "oid \<Rightarrow> service_doc \<Rightarrow> world \<Rightarrow> world" where
  "save_service i s w = w\<lparr>services := (services w)[i := s]\<rparr>"

definition save_payment :: "oid \<Rightarrow> payment_doc \<Rightarrow> world \<Rightarrow> world" where
  "save_payment i p w = w\<lparr>payments := (payments w)[i := p]\<rparr>"

text \<open>
  Saving a new payment (\<open>new Payment(...).save()\<close>, \<open>Payment.create\<close>): validation runs
  before the pre-save hook that would generate the \<open>paymentId\<close>, and a document that fails
  it is not written (\<open>None\<close>: the call throws a validation error).
\<close>

definition create_payment :: "payment_doc \<Rightarrow> world \<Rightarrow> world option" where
  "create_payment p w =
     (if validate_payment p then Some (w\<lparr>payments := payments w @ [p]\<rparr>) else None)"

text \<open>
  The two \<open>+=\<close> statements of the payment routes on the provider's wallet, followed by
  \<open>provider.save()\<close>. With an amount that is \<open>undefined\<close> or \<open>NaN\<close> the wallet fields become
  \<open>NaN\<close> and the save is rejected (\<open>None\<close>).
\<close>

definition credit_wallet :: "real option \<Rightarrow> user \<Rightarrow> user option" where
  "credit_wallet amount p =
     (case amount of
        None \<Rightarrow> None
      | Some a \<Rightarrow> Some (providerInfo_update (wallet_update (\<lambda>wl.
                   wl\<lparr>balance := balance wl + a,
                      totalEarnings := totalEarnings wl + a\<rparr>)) p))"

text \<open>The \<open>-=\<close> statement of the withdrawal route on the caller's wallet.\<close>

definition debit_wallet :: "real \<Rightarrow> user \<Rightarrow> user" where
  "debit_wallet totalDeduction u =
     providerInfo_update (wallet_update (\<lambda>wl.
       wl\<lparr>balance := balance wl - totalDeduction\<rparr>)) u"

text \<open>Reading a property that the document's schema does not define gives \<open>undefined\<close>.\<close>

definition no_such_path :: "'a option" where
  "no_such_path = None"

subsection \<open>Requests and responses\<close>

text \<open>
  A response is the HTTP status code with the message of the JSON body. \<open>req.user\<close> is the
  User document that \<open>authenticateUser\<close> attaches to the request, given here by its id
  and its role. The payment routes read \<open>req.user.uid\<close>; the User schema has no such path.
\<close>

type_synonym response = "nat \<times> string"

record req_user =
  ru_id :: oid
  ru_role :: role

definition req_user_uid :: "req_user \<Rightarrow> string option" where
  "req_user_uid ru = no_such_path"

definition is_space :: "char \<Rightarrow> bool" where
  "is_space c = (c \<in> set [CHR '' '', CHR 0x09, CHR 0x0A, CHR 0x0B, CHR 0x0C, CHR 0x0D])"

definition trim :: "string \<Rightarrow> string" where
  "trim s = rev (dropWhile is_space (rev (dropWhile is_space s)))"

text \<open>\<open>Math.round\<close>: the nearest integer, halves rounded up.\<close>

definition Math_round :: "real \<Rightarrow> int" where
  "Math_round x = \<lfloor>x + 1 / 2\<rfloor>"

fun show_nat :: "nat \<Rightarrow> string" where
  "show_nat n = (if n < 10 then [''0123456789'' ! n]
                 else show_nat (n div 10) @ [''0123456789'' ! (n mod 10)])"

definition show_int :: "int \<Rightarrow> string" where
  "show_int i = (if i < 0 then CHR ''-'' # show_nat (nat (- i)) else show_nat (nat i))"

text \<open>
  Errors. A method call or property read on \<open>null\<close> throws a \<open>TypeError\<close>, which the error
  handler answers with 500; a validation error thrown by \<open>save\<close> or \<open>create\<close> is answered
  with 400. The messages, which name the property read and list the failed paths, are
  abbreviated.
\<close>

definition null_error :: response where
  "null_error = (500, ''Cannot read properties of null'')"

definition validation_error :: response where
  "validation_error = (400, ''Validation failed'')"

subsection \<open>Middleware (middleware/auth.js)\<close>

definition requireRole :: "role \<Rightarrow> req_user \<Rightarrow> response option" where
  "requireRole r ru = (if ru_role ru \<noteq> r then Some (403, ''Insufficient permissions'') else None)"

text \<open>
  The string form of an id, and of a populated document. \<open>toString\<close> of an id is the id's
  digits. \<open>toString\<close> of a document is its inspect text, an object literal in braces that
  lists the document's paths; it is abbreviated here to the braces and the \<open>_id\<close> entry.
\<close>

definition objectId_toString :: "oid \<Rightarrow> string" where
  "objectId_toString i = show_nat i"

definition document_toString :: "oid \<Rightarrow> string" where
  "document_toString i = ''{ _id: '' @ objectId_toString i @ '', ... }''"

text \<open>
  \<open>requireBookingAccess\<close> lets an admin through without a booking role. For any other
  caller it compares \<open>booking.client.toString()\<close> and \<open>booking.provider.toString()\<close> with the
  caller's id string. The booking comes from \<open>loadBooking\<close>, which populates \<open>client\<close> and
  \<open>provider\<close>: each is the referenced user document, or \<open>null\<close> when that user no longer
  exists, and then \<open>toString\<close> throws.
\<close>

definition requireBookingAccess ::
  "req_user \<Rightarrow> (oid \<times> user) option \<Rightarrow> (oid \<times> user) option \<Rightarrow> response + role option" where
  "requireBookingAccess ru populatedClient populatedProvider =
     (if ru_role ru = Admin then Inr None
      else let userId = objectId_toString (ru_id ru)
           in case populatedClient of
                None \<Rightarrow> Inl null_error
              | Some (cid, c) \<Rightarrow>
                  let isClient = (document_toString cid = userId)
                  in case populatedProvider of
                       None \<Rightarrow> Inl null_error
                     | Some (pid, p) \<Rightarrow>
                         let isProvider = (document_toString pid = userId)
                         in if \<not> isClient \<and> \<not> isProvider then Inl (403, ''Access denied'')
                            else Inr (Some (if isClient then Client else Provider)))"

text \<open>\<open>populate\<close> of a reference: the id with the referenced document, if it exists.\<close>

definition populate :: "oid \<Rightarrow> 'a list \<Rightarrow> (oid \<times> 'a) option" where
  "populate i xs = map_option (Pair i) (findById i xs)"

text \<open>The chain \<open>loadBooking, requireBookingAccess\<close> in front of every booking route.\<close>

definition withBooking ::
  "req_user \<Rightarrow> oid \<Rightarrow> world \<Rightarrow> (role option \<Rightarrow> booking \<Rightarrow> response \<times> world) \<Rightarrow> response \<times> world" where
  "withBooking ru bid w handler =
     (case findById bid (bookings w) of
        None \<Rightarrow> ((404, ''Booking not found''), w)
      | Some b \<Rightarrow>
          (case requireBookingAccess ru (populate (client b) (users w))
                  (populate (provider b) (users w)) of
             Inl r \<Rightarrow> (r, w)
           | Inr ubr \<Rightarrow> handler ubr b))"

subsection \<open>Booking routes\<close>

definition accept_route ::
  "req_user \<Rightarrow> oid \<Rightarrow> string option \<Rightarrow> string option \<Rightarrow> clock \<Rightarrow> world \<Rightarrow> response \<times> world" where
  "accept_route ru bid msg suggested clk w = withBooking ru bid w (\<lambda>ubr b.
     if ubr \<noteq> Some Provider then ((403, ''Only providers can accept bookings''), w)
     else if status b \<noteq> ''pending''
       then ((400, ''Booking cannot be accepted in current status''), w)
     else
       let b1 = updateStatus ''accepted'' (ru_id ru) ''Provider accepted the booking'' clk b;
           b2 = b1\<lparr>providerResponse := Some \<lparr>accepted = True, respondedAt = clk 1,
                     message = map_option trim msg, suggestedTime = suggested\<rparr>\<rparr>
       in ((200, ''Booking accepted successfully''), save_booking bid b2 w))"

definition reject_route ::
  "req_user \<Rightarrow> oid \<Rightarrow> string \<Rightarrow> clock \<Rightarrow> world \<Rightarrow> response \<times> world" where
  "reject_route ru bid reason clk w = withBooking ru bid w (\<lambda>ubr b.
     if reason = [] then ((400, ''Rejection reason is required''), w)
     else if ubr \<noteq> Some Provider then ((403, ''Only providers can reject bookings''), w)
     else if status b \<noteq> ''pending''
       then ((400, ''Booking cannot be rejected in current status''), w)
     else
       let b1 = updateStatus ''rejected'' (ru_id ru) (trim reason) clk b;
           b2 = b1\<lparr>providerResponse := Some \<lparr>accepted = False, respondedAt = clk 1,
                     message = Some (trim reason), suggestedTime = None\<rparr>\<rparr>
       in ((200, ''Booking rejected''), save_booking bid b2 w))"

definition start_route :: "req_user \<Rightarrow> oid \<Rightarrow> clock \<Rightarrow> world \<Rightarrow> response \<times> world" where
  "start_route ru bid clk w = withBooking ru bid w (\<lambda>ubr b.
     if ubr \<noteq> Some Provider then ((403, ''Only providers can start service''), w)
     else if status b \<noteq> ''accepted''
       then ((400, ''Service can only be started for accepted bookings''), w)
     else
       let b1 = updateStatus ''in_progress'' (ru_id ru) ''Service started'' clk b;
           b2 = b1\<lparr>execution := (execution b1)\<lparr>startedAt := Some (clk 1)\<rparr>\<rparr>
       in ((200, ''Service started successfully''), save_booking bid b2 w))"

text \<open>
  The complete route reads the clock for \<open>endTime\<close> (reading 0) before \<open>updateStatus\<close>
  (readings 1 to 3) and then overwrites \<open>completedAt\<close> with \<open>endTime\<close>. The provider is saved
  before the service is loaded, and the booking is saved last; when \<open>startedAt\<close> is absent
  the duration is \<open>NaN\<close> and that last save is rejected.
\<close>

definition complete_route ::
  "req_user \<Rightarrow> oid \<Rightarrow> string option \<Rightarrow> string list option \<Rightarrow> clock \<Rightarrow> world \<Rightarrow> response \<times> world" where
  "complete_route ru bid notes photos clk w = withBooking ru bid w (\<lambda>ubr b.
     if ubr \<noteq> Some Provider then ((403, ''Only providers can complete service''), w)
     else if status b \<noteq> ''in_progress''
       then ((400, ''Service can only be completed for in-progress bookings''), w)
     else
       let endTime = clk 0;
           duration = (case startedAt (execution b) of
                         None \<Rightarrow> None
                       | Some startTime \<Rightarrow>
                           Some (Math_round (real_of_int (endTime - startTime) / (1000 * 60))));
           b1 = updateStatus ''completed'' (ru_id ru) ''Service completed'' (later 1 clk) b;
           b2 = b1\<lparr>execution := (execution b1)\<lparr>completedAt := Some endTime,
                     actualDuration := duration,
                     completionNotes := map_option trim notes,
                     workPhotos := (case photos of None \<Rightarrow> [] | Some ps \<Rightarrow> ps)\<rparr>\<rparr>
       in case findById (provider b2) (users w) of
            None \<Rightarrow> (null_error, w)
          | Some p \<Rightarrow>
              let w1 = save_user (provider b2)
                         (addPendingEarnings
                            (servicePrice (pricing b2) + addOnsPrice (pricing b2)) p) w
              in case findById (service b2) (services w1) of
                   None \<Rightarrow> (null_error, w1)
                 | Some s \<Rightarrow>
                     let w2 = save_service (service b2) (incrementCompleted s) w1
                     in case actualDuration (execution b2) of
                          None \<Rightarrow> (validation_error, w2)
                        | Some d \<Rightarrow>
                            ((200, ''Service completed successfully. Awaiting client confirmation.''),
                             save_booking bid b2 w2))"

definition confirm_route :: "req_user \<Rightarrow> oid \<Rightarrow> clock \<Rightarrow> world \<Rightarrow> response \<times> world" where
  "confirm_route ru bid clk w = withBooking ru bid w (\<lambda>ubr b.
     if ubr \<noteq> Some Client
       then ((403, ''Only clients can confirm service completion''), w)
     else if status b \<noteq> ''completed''
       then ((400, ''Only completed services can be confirmed''), w)
     else if clientConfirmed (confirmation b)
       then ((400, ''Service already confirmed''), w)
     else
       let b1 = b\<lparr>confirmation := (confirmation b)\<lparr>clientConfirmed := True,
                     confirmedAt := Some (clk 0),
                     confirmationMethod := Some ''manual''\<rparr>\<rparr>
       in case findById (provider b1) (users w) of
            None \<Rightarrow> (null_error, w)
          | Some p \<Rightarrow>
              let earningsAmount = servicePrice (pricing b1) + addOnsPrice (pricing b1);
                  w1 = save_user (provider b1) (confirmEarnings earningsAmount p) w;
                  b2 = b1\<lparr>payment := (payment b1)\<lparr>pay_status := ''completed'',
                            pay_paidAt := Some (clk 1)\<rparr>\<rparr>
              in ((200, ''Service confirmed successfully. Payment processed.''),
                  save_booking bid b2 w1))"

definition cancel_route ::
  "req_user \<Rightarrow> oid \<Rightarrow> string \<Rightarrow> clock \<Rightarrow> world \<Rightarrow> response \<times> world" where
  "cancel_route ru bid reason clk w = withBooking ru bid w (\<lambda>ubr b.
     if reason = [] then ((400, ''Cancellation reason is required''), w)
     else if \<not> canBeCancelled (clk 0) b
       then ((400, ''Booking cannot be cancelled at this time''), w)
     else
       let b1 = updateStatus ''cancelled'' (ru_id ru) (trim reason) (later 1 clk) b;
           b2 = b1\<lparr>cancellation := Some \<lparr>cancelledBy = ru_id ru, cancelledAt = clk 2,
                     c_reason = trim reason\<rparr>\<rparr>
       in ((200, ''Booking cancelled successfully''), save_booking bid b2 w))"

definition dispute_route ::
  "req_user \<Rightarrow> oid \<Rightarrow> string \<Rightarrow> string \<Rightarrow> string list option \<Rightarrow> clock \<Rightarrow> world
     \<Rightarrow> response \<times> world" where
  "dispute_route ru bid reason descr evid clk w = withBooking ru bid w (\<lambda>ubr b.
     if reason = [] \<or> descr = [] then ((400, ''Validation errors''), w)
     else if status b \<notin> {''completed'', ''in_progress''}
       then ((400, ''Only completed or in-progress bookings can be disputed''), w)
     else if isDisputed (dispute b)
       then ((400, ''Booking is already disputed''), w)
     else
       let b1 = updateStatus ''disputed'' (ru_id ru) (trim reason) clk b;
           b2 = b1\<lparr>dispute := \<lparr>isDisputed = True, disputedBy = Some (ru_id ru),
                     disputedAt = Some (clk 1), d_reason = Some (trim reason),
                     description = Some (trim descr),
                     evidence = (case evid of None \<Rightarrow> [] | Some es \<Rightarrow> es),
                     resolution = None\<rparr>\<rparr>
       in ((200, ''Dispute created successfully. Admin will review.''),
           save_booking bid b2 w))"

subsection \<open>Admin dispute resolution (routes/admin.js)\<close>

text \<open>
  The admin router requires the admin role. The booking is loaded without populate and
  saved before the refund payment is created; the refund document names the method
  \<open>admin_refund\<close> and has no \<open>paymentId\<close>.
\<close>

definition resolve_dispute_route ::
  "req_user \<Rightarrow> oid \<Rightarrow> string \<Rightarrow> real option \<Rightarrow> clock \<Rightarrow> world \<Rightarrow> response \<times> world" where
  "resolve_dispute_route ru bid res refund clk w =
     (case requireRole Admin ru of
        Some r \<Rightarrow> (r, w)
      | None \<Rightarrow>
          if res = [] \<or> (case refund of None \<Rightarrow> False | Some x \<Rightarrow> x < 0)
            then ((400, ''Validation errors''), w)
          else
            (case findById bid (bookings w) of
               None \<Rightarrow> ((404, ''Booking not found''), w)
             | Some b \<Rightarrow>
                 if status b \<noteq> ''disputed'' then ((400, ''Booking is not disputed''), w)
                 else
                   let b1 = b\<lparr>dispute := (dispute b)\<lparr>resolution := Some
                                 \<lparr>resolvedBy = ru_id ru, resolvedAt = clk 0,
                                   resolution_text = trim res,
                                   refundAmount = (case refund of None \<Rightarrow> 0 | Some x \<Rightarrow> x)\<rparr>\<rparr>\<rparr>;
                       b2 = updateStatus ''completed'' (ru_id ru) ''Dispute resolved by admin''
                              (later 1 clk) b1;
                       w1 = save_booking bid b2 w
                   in if (case refund of None \<Rightarrow> False | Some x \<Rightarrow> x > 0)
                      then case create_payment
                                  \<lparr>p_paymentId = None, p_type = ''refund'', p_user = client b2,
                                    p_booking = Some bid, p_amount = refund,
                                    p_currency = ''EGP'', p_method = Some ''admin_refund'',
                                    p_status = ''completed'', p_transactionId = None,
                                    p_description = Some
                                      (''Dispute resolution refund for booking '' @
                                       bookingId b2)\<rparr> w1 of
                             None \<Rightarrow> (validation_error, w1)
                           | Some w2 \<Rightarrow> ((200, ''Dispute resolved successfully''), w2)
                      else ((200, ''Dispute resolved successfully''), w1)))"

subsection \<open>Payment service and payment routes\<close>

text \<open>
  \<open>calculatePlatformFee\<close> is called with the literal fee types \<open>booking\<close>, \<open>activation\<close> and
  \<open>withdrawal\<close>; any other fee type has no entry in the fee table and yields 0.
\<close>

definition calculatePlatformFee :: "real \<Rightarrow> string \<Rightarrow> real" where
  "calculatePlatformFee amount feeType =
     (if feeType = ''withdrawal'' then max (amount * 0.02) 2
      else if feeType = ''booking'' then 5
      else if feeType = ''activation'' then 20
      else 0)"

text \<open>
  \<open>processProviderWithdrawal\<close> refuses amounts under 50 and otherwise returns a fresh
  withdrawal id, which is generated from the clock and a random number and so is a
  parameter here.
\<close>

definition processProviderWithdrawal :: "real \<Rightarrow> string \<Rightarrow> string + string" where
  "processProviderWithdrawal amount wid =
     (if amount < 50 then Inl ''Minimum withdrawal amount is 50 EGP'' else Inr wid)"

text \<open>
  What a payment gateway call returned: whether it succeeded and the reference
  (\<open>transactionId || paymentIntentId || orderId\<close>) it produced.
\<close>

record gateway_result =
  gw_success :: bool
  gw_reference :: "string option"

definition process_error :: response where
  "process_error = (500, ''Failed to process booking payment'')"

definition withdraw_error :: response where
  "withdraw_error = (500, ''Failed to process withdrawal request'')"

definition ok_response :: response where
  "ok_response = (200, [])"

text \<open>
  The booking-payment route. It compares the populated client's \<open>firebaseUid\<close> with
  \<open>req.user.uid\<close>. Further down it reads \<open>booking.paymentStatus\<close> and \<open>booking.totalAmount\<close>,
  which are not paths of the Booking schema: the fee for the type \<open>booking\<close> does not
  depend on the amount, and the provider amount, \<open>undefined\<close> minus the fee, is \<open>NaN\<close>.
  Setting \<open>booking.paymentStatus\<close> and \<open>booking.paidAt\<close> changes nothing that is stored. Every
  exception is caught and answered with 500.
\<close>

definition process_route ::
  "req_user \<Rightarrow> oid \<Rightarrow> string \<Rightarrow> gateway_result \<Rightarrow> clock \<Rightarrow> world \<Rightarrow> response \<times> world" where
  "process_route ru bid paymentMethod paymentResult clk w =
     (if paymentMethod = [] then ((400, ''Validation failed''), w)
      else
        let userId = req_user_uid ru
        in case findById bid (bookings w) of
          None \<Rightarrow> ((404, ''Booking not found''), w)
        | Some b \<Rightarrow>
            (case populate (client b) (users w) of
               None \<Rightarrow> (process_error, w)
             | Some (cid, c) \<Rightarrow>
                 if Some (firebaseUid c) \<noteq> userId
                   then ((403, ''Unauthorized to pay for this booking''), w)
                 else if status b \<noteq> ''confirmed''
                   then ((400, ''Booking must be confirmed before payment''), w)
                 else if (no_such_path :: string option) = Some ''paid''
                   then ((400, ''Booking is already paid''), w)
                 else
                   let totalAmount = (no_such_path :: real option);
                       platformFee = calculatePlatformFee
                                       (case totalAmount of None \<Rightarrow> 0 | Some a \<Rightarrow> a) ''booking'';
                       providerAmount = map_option (\<lambda>a. a - platformFee) totalAmount
                   in if paymentMethod \<notin> {''stripe'', ''vodafone_cash'', ''etisalat_cash'',
                                           ''orange_money'', ''we_pay'', ''paypal''}
                        then ((400, ''Unsupported payment method''), w)
                      else if populate (provider b) (users w) = None then (process_error, w)
                      else if \<not> gw_success paymentResult
                        then ((400, ''Payment processing failed''), w)
                      else
                        (case create_payment
                                \<lparr>p_paymentId = None, p_type = ''booking_payment'',
                                  p_user = client b, p_booking = Some bid,
                                  p_amount = totalAmount, p_currency = ''EGP'',
                                  p_method = None,
                                  p_status = (if paymentMethod = ''stripe'' then ''pending''
                                              else ''completed''),
                                  p_transactionId = gw_reference paymentResult,
                                  p_description = None\<rparr> w of
                           None \<Rightarrow> (process_error, w)
                         | Some w1 \<Rightarrow>
                             if paymentMethod \<noteq> ''stripe'' \<and> paymentMethod \<noteq> ''paypal''
                             then
                               (case findById (provider b) (users w1) of
                                  None \<Rightarrow> (process_error, w1)
                                | Some p \<Rightarrow>
                                    (case credit_wallet providerAmount p of
                                       None \<Rightarrow> (process_error, w1)
                                     | Some p' \<Rightarrow>
                                         (ok_response, save_user (provider b) p' w1)))
                             else (ok_response, w1))))"

text \<open>
  The withdrawal route looks the caller up by \<open>firebaseUid: req.user.uid\<close>. Every stored
  user has a \<open>firebaseUid\<close> (it is required), so a filter on an undefined value finds
  nobody. The payment document is built with \<open>paymentMethod\<close> instead of \<open>method\<close> and
  without a \<open>paymentId\<close>, and it is saved before the wallet is touched.
\<close>

definition withdraw_route ::
  "req_user \<Rightarrow> real \<Rightarrow> string \<Rightarrow> string \<Rightarrow> world \<Rightarrow> response \<times> world" where
  "withdraw_route ru amount method wid w =
     (case requireRole Provider ru of
        Some r \<Rightarrow> (r, w)
      | None \<Rightarrow>
          if method = [] then ((400, ''Validation failed''), w)
          else
            let userId = req_user_uid ru
            in case findOne (\<lambda>u. Some (firebaseUid u) = userId) (users w) of
              None \<Rightarrow> ((403, ''Only providers can request withdrawals''), w)
            | Some (i, u) \<Rightarrow>
                if role u \<noteq> Provider
                  then ((403, ''Only providers can request withdrawals''), w)
                else if \<not> isActivated (providerInfo u)
                  then ((400, ''Provider account must be activated to request withdrawals''), w)
                else
                  let currentBalance = balance (wallet (providerInfo u));
                      withdrawalFee = calculatePlatformFee amount ''withdrawal'';
                      totalDeduction = amount + withdrawalFee
                  in if currentBalance < totalDeduction
                       then ((400, ''Insufficient balance''), w)
                     else case processProviderWithdrawal amount wid of
                       Inl err \<Rightarrow> ((400, ''Withdrawal processing failed''), w)
                     | Inr withdrawalId \<Rightarrow>
                         (case create_payment
                                 \<lparr>p_paymentId = None, p_type = ''withdrawal'', p_user = i,
                                   p_booking = None, p_amount = Some (- amount),
                                   p_currency = ''EGP'', p_method = None,
                                   p_status = ''processing'',
                                   p_transactionId = Some withdrawalId,
                                   p_description = None\<rparr> w of
                            None \<Rightarrow> (withdraw_error, w)
                          | Some w1 \<Rightarrow>
                              (ok_response,
                               save_user i (debit_wallet totalDeduction u) w1)))"

text \<open>
  The Stripe webhook. The handler body works on an event; the route as written does not
  parse the request (signature verification is commented out) but builds a placeholder
  success event whose payment-intent id is \<open>pi_demo_\<close> followed by the current time.

  The payment found by its \<open>transactionId\<close> is set to \<open>completed\<close> and saved. For a booking
  payment the booking is loaded with \<open>client\<close> and \<open>provider\<close> populated; the assignments to
  \<open>booking.paymentStatus\<close> and \<open>booking.paidAt\<close> are to properties outside the Booking
  schema, so \<open>booking.save()\<close> stores nothing new. The amount to credit is read from
  \<open>payment.metadata.providerAmount\<close>, which the Payment schema does not define. Every
  exception is caught and answered with 400.
\<close>

record stripe_event =
  ev_type :: string
  ev_intent_id :: string

definition received :: response where
  "received = (200, ''received'')"

definition webhook_error :: response where
  "webhook_error = (400, ''Webhook processing failed'')"

definition handle_stripe_event :: "stripe_event \<Rightarrow> clock \<Rightarrow> world \<Rightarrow> response \<times> world" where
  "handle_stripe_event event clk w =
     (if ev_type event = ''payment_intent.succeeded''
      then case findOne (\<lambda>p. p_transactionId p = Some (ev_intent_id event)) (payments w) of
        None \<Rightarrow> (received, w)
      | Some (i, pay) \<Rightarrow>
          let w1 = save_payment i (pay\<lparr>p_status := ''completed''\<rparr>) w
          in if p_type pay = ''booking_payment''
             then case (case p_booking pay of
                          None \<Rightarrow> None
                        | Some bid \<Rightarrow> map_option (Pair bid) (findById bid (bookings w1))) of
               None \<Rightarrow> (received, w1)
             | Some (bid, b) \<Rightarrow>
                 let w2 = save_booking bid b w1;
                     providerAmount = (no_such_path :: real option)
                 in (case populate (provider b) (users w2) of
                       None \<Rightarrow> (webhook_error, w2)
                     | Some (pid, p) \<Rightarrow>
                         (case credit_wallet providerAmount p of
                            None \<Rightarrow> (webhook_error, w2)
                          | Some p' \<Rightarrow> (received, save_user pid p' w2)))
             else (received, w1)
      else (received, w))"

definition stripe_webhook_route :: "clock \<Rightarrow> world \<Rightarrow> response \<times> world" where
  "stripe_webhook_route clk w =
     handle_stripe_event
       \<lparr>ev_type = ''payment_intent.succeeded'',
         ev_intent_id = ''pi_demo_'' @ show_int (clk 0)\<rparr>
       (later 1 clk) w"

subsection \<open>Sequences of requests\<close>

datatype request =
    Accept req_user oid "string option" "string option"
  | Reject req_user oid string
  | Start req_user oid
  | Complete req_user oid "string option" "string list option"
  | Confirm req_user oid
  | Cancel req_user oid string
  | Dispute req_user oid string string "string list option"
  | ResolveDispute req_user oid string "real option"
  | Process req_user oid string gateway_result
  | Withdraw req_user real string string
  | StripeEvent stripe_event
  | StripeWebhook

fun step :: "request \<Rightarrow> clock \<Rightarrow> world \<Rightarrow> response \<times> world" where
  "step (Accept ru bid msg sugg) clk w = accept_route ru bid msg sugg clk w"
| "step (Reject ru bid reason) clk w = reject_route ru bid reason clk w"
| "step (Start ru bid) clk w = start_route ru bid clk w"
| "step (Complete ru bid notes photos) clk w = complete_route ru bid notes photos clk w"
| "step (Confirm ru bid) clk w = confirm_route ru bid clk w"
| "step (Cancel ru bid reason) clk w = cancel_route ru bid reason clk w"
| "step (Dispute ru bid reason descr evid) clk w = dispute_route ru bid reason descr evid clk w"
| "step (ResolveDispute ru bid res refund) clk w = resolve_dispute_route ru bid res refund clk w"
| "step (Process ru bid m r) clk w = process_route ru bid m r clk w"
| "step (Withdraw ru amount m wid) clk w = withdraw_route ru amount m wid w"
| "step (StripeEvent ev) clk w = handle_stripe_event ev clk w"
| "step StripeWebhook clk w = stripe_webhook_route clk w"

text \<open>
  Requests are served one after the other, each with its own clock readings.
  \<open>confirmations\<close> counts the confirm requests for booking \<open>bid\<close> that succeed in such a
  sequence. The confirm route calls \<open>confirmEarnings\<close> once on exactly its successful
  path, and nothing else calls it.
\<close>

definition is_confirm_of :: "oid \<Rightarrow> request \<Rightarrow> bool" where
  "is_confirm_of bid r = (case r of Confirm ru bid' \<Rightarrow> bid' = bid | _ \<Rightarrow> False)"

fun confirmations :: "oid \<Rightarrow> (request \<times> clock) list \<Rightarrow> world \<Rightarrow> nat" where
  "confirmations bid [] w = 0"
| "confirmations bid ((r, clk) # rs) w =
     (let (resp, w1) = step r clk w
      in (if is_confirm_of bid r \<and> fst resp = 200 then 1 else 0) + confirmations bid rs w1)"

subsection \<open>Example data\<close>

text \<open>
  A small store used to evaluate the handlers: a client (id 0), an activated provider
  (id 1) and an admin (id 2); one service; one pending booking of that client with that
  provider, priced 200 + 50 with a platform fee of 5.
\<close>

definition ticking :: "time \<Rightarrow> clock" where
  "ticking t = (\<lambda>k. t + int k)"

definition ex_client :: req_user where
  "ex_client = \<lparr>ru_id = 0, ru_role = Client\<rparr>"

definition ex_provider :: req_user where
  "ex_provider = \<lparr>ru_id = 1, ru_role = Provider\<rparr>"

definition ex_admin :: req_user where
  "ex_admin = \<lparr>ru_id = 2, ru_role = Admin\<rparr>"

definition ex_user :: "string \<Rightarrow> role \<Rightarrow> bool \<Rightarrow> real \<Rightarrow> user" where
  "ex_user uid r act bal =
     \<lparr>firebaseUid = uid, role = r,
       providerInfo = \<lparr>isActivated = act, activationFeePaid = act,
         wallet = \<lparr>balance = bal, pendingBalance = 0, totalEarnings = bal\<rparr>\<rparr>\<rparr>"

definition ex_users :: "user list" where
  "ex_users = [ex_user ''uid-client'' Client False 0,
               ex_user ''uid-provider'' Provider True 102,
               ex_user ''uid-admin'' Admin False 0]"

definition ex_booking :: booking where
  "ex_booking =
     \<lparr>bookingId = ''SLH1'', client = 0, provider = 1, service = 0,
       scheduledDate = 100000000,
       pricing = \<lparr>servicePrice = 200, addOnsPrice = 50, platformFee = 5, totalAmount = 255\<rparr>,
       status = ''pending'', statusHistory = [], providerResponse = None,
       execution = \<lparr>startedAt = None, completedAt = None, actualDuration = None,
                     workPhotos = [], completionNotes = None\<rparr>,
       payment = \<lparr>pay_status = ''pending'', pay_paidAt = None\<rparr>,
       confirmation = \<lparr>clientConfirmed = False, confirmedAt = None, autoConfirmAt = None,
                        confirmationMethod = None\<rparr>,
       dispute = \<lparr>isDisputed = False, disputedBy = None, disputedAt = None, d_reason = None,
                   description = None, evidence = [], resolution = None\<rparr>,
       cancellation = None\<rparr>"

definition ex_world :: world where
  "ex_world = \<lparr>users = ex_users, bookings = [ex_booking],
                services = [\<lparr>completedBookings = 0\<rparr>], payments = []\<rparr>"

text \<open>The example booking once the provider has started work, at time 0.\<close>

definition ex_started_world :: world where
  "ex_started_world =
     ex_world\<lparr>bookings := [ex_booking\<lparr>status := ''in_progress'',
                  execution := (execution ex_booking)\<lparr>startedAt := Some 0\<rparr>\<rparr>]\<rparr>"

text \<open>The example booking completed and already confirmed by the client.\<close>

definition ex_confirmed_world :: world where
  "ex_confirmed_world =
     ex_world\<lparr>bookings := [ex_booking\<lparr>status := ''completed'',
                  confirmation := (confirmation ex_booking)\<lparr>clientConfirmed := True,
                     confirmedAt := Some 4000, confirmationMethod := Some ''manual''\<rparr>\<rparr>]\<rparr>"

text \<open>
  A stored, pending card payment for the example booking, and the gateway event that
  confirms it.
\<close>

definition ex_payment :: payment_doc where
  "ex_payment =
     \<lparr>p_paymentId = Some ''BKG1'', p_type = ''booking_payment'', p_user = 0,
       p_booking = Some 0, p_amount = Some 255, p_currency = ''EGP'',
       p_method = Some ''stripe'', p_status = ''pending'',
       p_transactionId = Some ''pi_1'', p_description = None\<rparr>"

definition ex_event :: stripe_event where
  "ex_event = \<lparr>ev_type = ''payment_intent.succeeded'', ev_intent_id = ''pi_1''\<rparr>"

definition ex_paid_world :: world where
  "ex_paid_world = ex_world\<lparr>payments := [ex_payment]\<rparr>"



text \<open>
  The example booking under dispute: completed at time 5000, never confirmed by the
  client, disputed by the admin at time 6000.
\<close>

definition ex_disputed_world :: world where
  "ex_disputed_world =
     ex_world\<lparr>bookings := [ex_booking\<lparr>status := ''disputed'',
                  statusHistory := [\<lparr>h_status = ''completed'', h_timestamp = 6000,
                                     h_updatedBy = 2, h_reason = ''late''\<rparr>],
                  execution := (execution ex_booking)\<lparr>startedAt := Some 0,
                     completedAt := Some 5000, actualDuration := Some 0\<rparr>,
                  confirmation := (confirmation ex_booking)\<lparr>autoConfirmAt := Some (5000 + hours48)\<rparr>,
                  dispute := \<lparr>isDisputed = True, disputedBy = Some 2, disputedAt = Some 6000,
                              d_reason = Some ''late'', description = Some ''provider left'',
                              evidence = [], resolution = None\<rparr>\<rparr>]\<rparr>"

subsection \<open>Callers and stores\<close>


text \<open>
  How a booking and the store may change from one request to the next: the status history
  only grows, by at most one entry, and a set \<open>clientConfirmed\<close> flag stays set;
  \<open>earnings_grow\<close> says that no user's \<open>totalEarnings\<close> decreases.
\<close>

definition booking_evolves :: "booking \<Rightarrow> booking \<Rightarrow> bool" where
  "booking_evolves b b' \<longleftrightarrow>
     prefix (statusHistory b) (statusHistory b') \<and>
     length (statusHistory b') \<le> Suc (length (statusHistory b)) \<and>
     (clientConfirmed (confirmation b) \<longrightarrow> clientConfirmed (confirmation b'))"

definition store_evolves :: "world \<Rightarrow> world \<Rightarrow> bool" where
  "store_evolves w w' \<longleftrightarrow>
     length (bookings w') = length (bookings w) \<and>
     (\<forall>i < length (bookings w). booking_evolves (bookings w ! i) (bookings w' ! i))"

definition earnings_grow :: "world \<Rightarrow> world \<Rightarrow> bool" where
  "earnings_grow w w' \<longleftrightarrow>
     length (users w') = length (users w) \<and>
     (\<forall>i < length (users w).
        totalEarnings (wallet (providerInfo (users w ! i))) \<le>
        totalEarnings (wallet (providerInfo (users w' ! i))))"

section \<open>Basic facts about the model\<close>

lemma updateStatus_statusHistory [simp]:
  "statusHistory (updateStatus s actor reason clk b) =
     statusHistory b @ [\<lparr>h_status = status b, h_timestamp = clk 0,
                          h_updatedBy = actor, h_reason = reason\<rparr>]"
  by (simp add: updateStatus_def Let_def)

lemma updateStatus_status [simp]: "status (updateStatus s actor reason clk b) = s"
  by (simp add: updateStatus_def Let_def)

lemma updateStatus_frame [simp]:
  "client (updateStatus s actor reason clk b) = client b"
  "provider (updateStatus s actor reason clk b) = provider b"
  "service (updateStatus s actor reason clk b) = service b"
  "pricing (updateStatus s actor reason clk b) = pricing b"
  "dispute (updateStatus s actor reason clk b) = dispute b"
  "payment (updateStatus s actor reason clk b) = payment b"
  "bookingId (updateStatus s actor reason clk b) = bookingId b"
  "scheduledDate (updateStatus s actor reason clk b) = scheduledDate b"
  by (simp_all add: updateStatus_def Let_def)

lemma updateStatus_clientConfirmed [simp]:
  "clientConfirmed (confirmation (updateStatus s actor reason clk b)) =
   clientConfirmed (confirmation b)"
  by (simp add: updateStatus_def Let_def)

lemma updateStatus_autoConfirmAt:
  "autoConfirmAt (confirmation (updateStatus s actor reason clk b)) =
     (if s = ''completed'' then Some (clk 2 + hours48) else autoConfirmAt (confirmation b))"
  by (simp add: updateStatus_def Let_def)

lemma save_simps [simp]:
  "bookings (save_booking bid b w) = (bookings w)[bid := b]"
  "users (save_booking bid b w) = users w"
  "services (save_booking bid b w) = services w"
  "payments (save_booking bid b w) = payments w"
  "bookings (save_user i u w) = bookings w"
  "users (save_user i u w) = (users w)[i := u]"
  "services (save_user i u w) = services w"
  "payments (save_user i u w) = payments w"
  "bookings (save_service i s w) = bookings w"
  "users (save_service i s w) = users w"
  "services (save_service i s w) = (services w)[i := s]"
  "payments (save_service i s w) = payments w"
  "bookings (save_payment i p w) = bookings w"
  "users (save_payment i p w) = users w"
  "services (save_payment i p w) = services w"
  "payments (save_payment i p w) = (payments w)[i := p]"
  by (simp_all add: save_booking_def save_user_def save_service_def save_payment_def)

lemma create_payment_SomeD:
  "create_payment p w = Some w' \<Longrightarrow>
     bookings w' = bookings w \<and> users w' = users w \<and> services w' = services w \<and>
     payments w' = payments w @ [p] \<and> validate_payment p"
  by (auto simp: create_payment_def split: if_splits)

lemma findById_Some: "findById i xs = Some x \<longleftrightarrow> i < length xs \<and> xs ! i = x"
  by (auto simp: findById_def)

lemma findById_None: "findById i xs = None \<longleftrightarrow> length xs \<le> i"
  by (auto simp: findById_def)






lemma findOne_from_never: "findOne_from k (\<lambda>x. False) xs = None"
  by (induction xs arbitrary: k) simp_all

lemma findOne_by_uid_undefined:
  "findOne (\<lambda>u. Some (firebaseUid u) = req_user_uid ru) xs = None"
  by (simp add: findOne_def req_user_uid_def no_such_path_def findOne_from_never)

subsection \<open>The string of a populated document is never the string of an id\<close>

lemma show_nat_digits: "set (show_nat n) \<subseteq> set ''0123456789''"
proof (induction n rule: show_nat.induct)
  case (1 n)
  have d: "\<And>k. k < 10 \<Longrightarrow> ''0123456789'' ! k \<in> set ''0123456789''"
    by (rule nth_mem) simp
  show ?case
  proof (cases "n < 10")
    case True
    then show ?thesis using d [of n] by (subst show_nat.simps) simp
  next
    case False
    have m: "''0123456789'' ! (n mod 10) \<in> set ''0123456789''" by (rule d) simp
    from False 1 have "set (show_nat (n div 10)) \<subseteq> set ''0123456789''" by simp
    with False m show ?thesis by (subst show_nat.simps) simp
  qed
qed

lemma document_toString_neq: "document_toString i \<noteq> objectId_toString j"
proof
  assume eq: "document_toString i = objectId_toString j"
  have "CHR ''{'' \<in> set (document_toString i)" by (simp add: document_toString_def)
  with eq have "CHR ''{'' \<in> set (show_nat j)" by (simp add: objectId_toString_def)
  with show_nat_digits [of j] show False by auto
qed

lemma requireBookingAccess_InrD:
  "requireBookingAccess ru pc pp = Inr ubr \<Longrightarrow> ubr = None \<and> ru_role ru = Admin"
  by (auto simp: requireBookingAccess_def Let_def document_toString_neq
        split: if_splits option.splits prod.splits)



lemma requireBookingAccess_InlD:
  "requireBookingAccess ru pc pp = Inl r \<Longrightarrow>
     ru_role ru \<noteq> Admin \<and> (r = (403, ''Access denied'') \<or> r = null_error)"
  by (auto simp: requireBookingAccess_def Let_def document_toString_neq
        split: if_splits option.splits prod.splits)


text \<open>
  What the chain in front of a booking route leaves to the handler: either it answers
  itself (404, 403 or 500) and the store is as before, or the caller is an admin and the
  handler runs without a booking role.
\<close>

lemma withBooking_cases:
  assumes "withBooking ru bid w h = (resp, w')"
  obtains "w' = w" "resp = (404, ''Booking not found'') \<or> resp = (403, ''Access denied'') \<or>
                    resp = null_error"
  | b where "findById bid (bookings w) = Some b" "ru_role ru = Admin" "h None b = (resp, w')"
proof (cases "findById bid (bookings w)")
  case None
  with assms have "w' = w" "resp = (404, ''Booking not found'')"
    by (simp_all add: withBooking_def)
  then show ?thesis using that(1) by simp
next
  case (Some b)
  show ?thesis
  proof (cases "requireBookingAccess ru (populate (client b) (users w))
                  (populate (provider b) (users w))")
    case (Inl r)
    with Some assms have "w' = w" "resp = r" by (simp_all add: withBooking_def)
    with requireBookingAccess_InlD [OF Inl] show ?thesis using that(1) by auto
  next
    case (Inr ubr)
    from requireBookingAccess_InrD [OF Inr] have "ubr = None" "ru_role ru = Admin" by simp_all
    with Some Inr assms show ?thesis using that(2) by (simp add: withBooking_def)
  qed
qed

subsection \<open>What each route can do to the store\<close>

lemma booking_evolves_refl [simp]: "booking_evolves b b"
  by (simp add: booking_evolves_def)

lemma store_evolves_refl [simp]: "store_evolves w w"
  by (simp add: store_evolves_def)

lemma earnings_grow_refl [simp]: "earnings_grow w w"
  by (simp add: earnings_grow_def)

lemma users_same_grow: "users w' = users w \<Longrightarrow> earnings_grow w w'"
  by (simp add: earnings_grow_def)

text \<open>
  The five routes that test \<open>req.userBookingRole\<close> never get past that test: the booking
  chain lets only an admin through, and an admin has no booking role.
\<close>

lemma accept_refused:
  assumes "accept_route ru bid msg sugg clk w = (resp, w')"
  shows "w' = w \<and> (resp = (404, ''Booking not found'') \<or> resp = (403, ''Access denied'') \<or>
                    resp = null_error \<or> resp = (403, ''Only providers can accept bookings''))"
  using assms unfolding accept_route_def by (elim withBooking_cases) auto

lemma reject_refused:
  assumes "reject_route ru bid reason clk w = (resp, w')"
  shows "w' = w \<and> (resp = (404, ''Booking not found'') \<or> resp = (403, ''Access denied'') \<or>
                    resp = null_error \<or> resp = (400, ''Rejection reason is required'') \<or>
                    resp = (403, ''Only providers can reject bookings''))"
  using assms unfolding reject_route_def
  by (elim withBooking_cases) (auto split: if_splits)

lemma start_refused:
  assumes "start_route ru bid clk w = (resp, w')"
  shows "w' = w \<and> (resp = (404, ''Booking not found'') \<or> resp = (403, ''Access denied'') \<or>
                    resp = null_error \<or> resp = (403, ''Only providers can start service''))"
  using assms unfolding start_route_def by (elim withBooking_cases) auto

lemma complete_refused:
  assumes "complete_route ru bid notes photos clk w = (resp, w')"
  shows "w' = w \<and> (resp = (404, ''Booking not found'') \<or> resp = (403, ''Access denied'') \<or>
                    resp = null_error \<or> resp = (403, ''Only providers can complete service''))"
  using assms unfolding complete_route_def by (elim withBooking_cases) auto

lemma confirm_refused:
  assumes "confirm_route ru bid clk w = (resp, w')"
  shows "w' = w \<and> (resp = (404, ''Booking not found'') \<or> resp = (403, ''Access denied'') \<or>
                    resp = null_error \<or>
                    resp = (403, ''Only clients can confirm service completion''))"
  using assms unfolding confirm_route_def by (elim withBooking_cases) auto

lemmas evolve_simps = Let_def findById_Some booking_evolves_def store_evolves_def nth_list_update

lemma cancel_evolves: "cancel_route ru bid reason clk w = (resp, w') \<Longrightarrow> store_evolves w w'"
  unfolding cancel_route_def
  by (erule withBooking_cases) (auto simp: evolve_simps split: if_splits)

lemma dispute_evolves:
  "dispute_route ru bid reason descr evid clk w = (resp, w') \<Longrightarrow> store_evolves w w'"
  unfolding dispute_route_def
  by (erule withBooking_cases) (auto simp: evolve_simps split: if_splits)

lemma resolve_evolves:
  "resolve_dispute_route ru bid res refund clk w = (resp, w') \<Longrightarrow> store_evolves w w'"
  unfolding resolve_dispute_route_def
  by (auto simp: evolve_simps dest!: create_payment_SomeD split: if_splits option.splits)

lemma cancel_users: "cancel_route ru bid reason clk w = (resp, w') \<Longrightarrow> users w' = users w"
  unfolding cancel_route_def
  by (erule withBooking_cases) (auto simp: Let_def split: if_splits)

lemma dispute_users:
  "dispute_route ru bid reason descr evid clk w = (resp, w') \<Longrightarrow> users w' = users w"
  unfolding dispute_route_def
  by (erule withBooking_cases) (auto simp: Let_def split: if_splits)

lemma resolve_users:
  "resolve_dispute_route ru bid res refund clk w = (resp, w') \<Longrightarrow> users w' = users w"
  unfolding resolve_dispute_route_def
  by (auto simp: Let_def dest!: create_payment_SomeD split: if_splits option.splits)

text \<open>
  The two payment routes that read \<open>req.user.uid\<close> answer before they write anything.
\<close>

lemma process_refused:
  assumes "process_route ru bid m r clk w = (resp, w')"
  shows "w' = w \<and> (resp = (400, ''Validation failed'') \<or> resp = (404, ''Booking not found'') \<or>
                    resp = process_error \<or>
                    resp = (403, ''Unauthorized to pay for this booking''))"
  using assms unfolding process_route_def req_user_uid_def no_such_path_def Let_def
  by (auto split: if_splits option.splits prod.splits)

lemma withdraw_refused:
  assumes "withdraw_route ru amount m wid w = (resp, w')"
  shows "w' = w \<and> (resp = (403, ''Insufficient permissions'') \<or>
                    resp = (400, ''Validation failed'') \<or>
                    resp = (403, ''Only providers can request withdrawals''))"
  using assms unfolding withdraw_route_def Let_def findOne_by_uid_undefined requireRole_def
  by (auto split: if_splits option.splits)

text \<open>
  The webhook handler writes the payment it finds, with status \<open>completed\<close>, and nothing
  else.
\<close>

lemma stripe_event_store:
  assumes "handle_stripe_event ev clk w = (resp, w')"
  shows "users w' = users w \<and> bookings w' = bookings w \<and> services w' = services w \<and>
         (case findOne (\<lambda>p. p_transactionId p = Some (ev_intent_id ev)) (payments w) of
            None \<Rightarrow> payments w' = payments w
          | Some (i, pay) \<Rightarrow>
              if ev_type ev = ''payment_intent.succeeded''
              then payments w' = (payments w)[i := pay\<lparr>p_status := ''completed''\<rparr>]
              else payments w' = payments w)"
  using assms unfolding handle_stripe_event_def Let_def
  by (auto simp: credit_wallet_def no_such_path_def findById_Some list_update_same_conv
        split: if_splits option.splits prod.splits)

lemma stripe_event_evolves:
  "handle_stripe_event ev clk w = (resp, w') \<Longrightarrow> store_evolves w w'"
  by (drule stripe_event_store) (simp add: store_evolves_def)

lemma stripe_event_users:
  "handle_stripe_event ev clk w = (resp, w') \<Longrightarrow> users w' = users w"
  by (drule stripe_event_store) simp

lemma step_evolves: "step r clk w = (resp, w') \<Longrightarrow> store_evolves w w'"
proof (cases r)
  case Accept then show "step r clk w = (resp, w') \<Longrightarrow> ?thesis"
    by (auto dest: accept_refused)
next
  case Reject then show "step r clk w = (resp, w') \<Longrightarrow> ?thesis"
    by (auto dest: reject_refused)
next
  case Start then show "step r clk w = (resp, w') \<Longrightarrow> ?thesis"
    by (auto dest: start_refused)
next
  case Complete then show "step r clk w = (resp, w') \<Longrightarrow> ?thesis"
    by (auto dest: complete_refused)
next
  case Confirm then show "step r clk w = (resp, w') \<Longrightarrow> ?thesis"
    by (auto dest: confirm_refused)
next
  case Cancel then show "step r clk w = (resp, w') \<Longrightarrow> ?thesis" by (simp add: cancel_evolves)
next
  case Dispute then show "step r clk w = (resp, w') \<Longrightarrow> ?thesis" by (simp add: dispute_evolves)
next
  case ResolveDispute then show "step r clk w = (resp, w') \<Longrightarrow> ?thesis"
    by (simp add: resolve_evolves)
next
  case Process then show "step r clk w = (resp, w') \<Longrightarrow> ?thesis"
    by (auto dest: process_refused)
next
  case Withdraw then show "step r clk w = (resp, w') \<Longrightarrow> ?thesis"
    by (auto dest: withdraw_refused)
next
  case StripeEvent then show "step r clk w = (resp, w') \<Longrightarrow> ?thesis"
    by (simp add: stripe_event_evolves)
next
  case StripeWebhook then show "step r clk w = (resp, w') \<Longrightarrow> ?thesis"
    by (simp add: stripe_webhook_route_def stripe_event_evolves)
qed

lemma step_users: "step r clk w = (resp, w') \<Longrightarrow> users w' = users w"
proof (cases r)
  case Accept then show "step r clk w = (resp, w') \<Longrightarrow> ?thesis"
    by (auto dest: accept_refused)
next
  case Reject then show "step r clk w = (resp, w') \<Longrightarrow> ?thesis"
    by (auto dest: reject_refused)
next
  case Start then show "step r clk w = (resp, w') \<Longrightarrow> ?thesis"
    by (auto dest: start_refused)
next
  case Complete then show "step r clk w = (resp, w') \<Longrightarrow> ?thesis"
    by (auto dest: complete_refused)
next
  case Confirm then show "step r clk w = (resp, w') \<Longrightarrow> ?thesis"
    by (auto dest: confirm_refused)
next
  case Cancel then show "step r clk w = (resp, w') \<Longrightarrow> ?thesis" by (simp add: cancel_users)
next
  case Dispute then show "step r clk w = (resp, w') \<Longrightarrow> ?thesis" by (simp add: dispute_users)
next
  case ResolveDispute then show "step r clk w = (resp, w') \<Longrightarrow> ?thesis"
    by (simp add: resolve_users)
next
  case Process then show "step r clk w = (resp, w') \<Longrightarrow> ?thesis"
    by (auto dest: process_refused)
next
  case Withdraw then show "step r clk w = (resp, w') \<Longrightarrow> ?thesis"
    by (auto dest: withdraw_refused)
next
  case StripeEvent then show "step r clk w = (resp, w') \<Longrightarrow> ?thesis"
    by (simp add: stripe_event_users)
next
  case StripeWebhook then show "step r clk w = (resp, w') \<Longrightarrow> ?thesis"
    by (simp add: stripe_webhook_route_def stripe_event_users)
qed

lemma step_earnings: "step r clk w = (resp, w') \<Longrightarrow> earnings_grow w w'"
  by (drule step_users) (rule users_same_grow)

section \<open>Wallet methods\<close>

lemma addEarnings_other_role [simp]: "role u \<noteq> Provider \<Longrightarrow> addEarnings a u = u"
  by (simp add: addEarnings_def)

lemma addPendingEarnings_other_role [simp]: "role u \<noteq> Provider \<Longrightarrow> addPendingEarnings a u = u"
  by (simp add: addPendingEarnings_def)

lemma confirmEarnings_other_role [simp]: "role u \<noteq> Provider \<Longrightarrow> confirmEarnings a u = u"
  by (simp add: confirmEarnings_def)

text \<open>
  C10. For a user whose role is not \<open>provider\<close>, each of \<open>addEarnings\<close>,
  \<open>addPendingEarnings\<close> and \<open>confirmEarnings\<close> is a no-op for every amount: the user
  document, and so its balance, pending balance and total earnings, is unchanged.
\<close>

theorem wallet_methods_noop_for_non_provider:
  assumes "role u \<noteq> Provider"
  shows "addEarnings a u = u \<and> addPendingEarnings a u = u \<and> confirmEarnings a u = u
       \<and> wallet (providerInfo (addEarnings a u)) = wallet (providerInfo u)
       \<and> wallet (providerInfo (addPendingEarnings a u)) = wallet (providerInfo u)
       \<and> wallet (providerInfo (confirmEarnings a u)) = wallet (providerInfo u)"
  using assms by simp

theorem wallet_methods_noop_for_non_provider_witness:
  "(let u = \<lparr>firebaseUid = ''c1'', role = Client,
             providerInfo = \<lparr>isActivated = False, activationFeePaid = False,
               wallet = \<lparr>balance = 10, pendingBalance = 20, totalEarnings = 30\<rparr>\<rparr>\<rparr>
    in role u \<noteq> Provider \<and> addEarnings 7 u = u \<and> addPendingEarnings 7 u = u
       \<and> confirmEarnings 7 u = u)"
proof -
  define u where "u = \<lparr>firebaseUid = ''c1'', role = Client,
             providerInfo = \<lparr>isActivated = False, activationFeePaid = False,
               wallet = \<lparr>balance = 10, pendingBalance = 20, totalEarnings = 30\<rparr>\<rparr>\<rparr>"
  have r: "role u \<noteq> Provider" by (simp add: u_def)
  from wallet_methods_noop_for_non_provider [OF r, of 7]
  show ?thesis unfolding u_def Let_def using r by (simp add: u_def)
qed

section \<open>Cancellation window\<close>

text \<open>
  C6. \<open>canBeCancelled\<close> is true exactly when the status is \<open>pending\<close> or \<open>accepted\<close> and the
  scheduled time is strictly more than two hours (7200000 ms) after the current time. It is
  false when the scheduled time is two hours or less away, in particular at exactly two
  hours, and false for every other status.
\<close>

theorem canBeCancelled_iff:
  "(canBeCancelled now b \<longleftrightarrow>
      (status b = ''pending'' \<or> status b = ''accepted'') \<and>
      scheduledDate b - now > 2 * 60 * 60 * 1000)
   \<and> (scheduledDate b - now \<le> 2 * 60 * 60 * 1000 \<longrightarrow> \<not> canBeCancelled now b)
   \<and> (scheduledDate b = now + 2 * 60 * 60 * 1000 \<longrightarrow> \<not> canBeCancelled now b)
   \<and> (status b \<noteq> ''pending'' \<and> status b \<noteq> ''accepted'' \<longrightarrow> \<not> canBeCancelled now b)"
  by (auto simp add: canBeCancelled_def Let_def)

theorem canBeCancelled_iff_witness:
  "canBeCancelled 0 ex_booking
   \<and> scheduledDate ex_booking = 92800000 + 2 * 60 * 60 * 1000
   \<and> \<not> canBeCancelled 92800000 ex_booking
   \<and> status (ex_booking\<lparr>status := ''completed''\<rparr>) \<noteq> ''pending''
   \<and> status (ex_booking\<lparr>status := ''completed''\<rparr>) \<noteq> ''accepted''
   \<and> \<not> canBeCancelled 0 (ex_booking\<lparr>status := ''completed''\<rparr>)"
proof -
  have far: "(status ex_booking = ''pending'' \<or> status ex_booking = ''accepted'') \<and>
      scheduledDate ex_booking - 0 > 2 * 60 * 60 * 1000"
    by (simp add: ex_booking_def)
  have edge: "scheduledDate ex_booking = 92800000 + 2 * 60 * 60 * 1000"
    by (simp add: ex_booking_def)
  have other: "status (ex_booking\<lparr>status := ''completed''\<rparr>) \<noteq> ''pending'' \<and>
      status (ex_booking\<lparr>status := ''completed''\<rparr>) \<noteq> ''accepted''"
    by simp
  from canBeCancelled_iff [of 0 ex_booking] far have 1: "canBeCancelled 0 ex_booking"
    by blast
  from canBeCancelled_iff [of 92800000 ex_booking] edge
  have 2: "\<not> canBeCancelled 92800000 ex_booking" by blast
  from canBeCancelled_iff [of 0 "ex_booking\<lparr>status := ''completed''\<rparr>"] other
  have 3: "\<not> canBeCancelled 0 (ex_booking\<lparr>status := ''completed''\<rparr>)" by blast
  from 1 2 3 edge other show ?thesis by blast
qed

section \<open>Status history\<close>

text \<open>
  C8. \<open>updateStatus\<close> appends exactly one entry to \<open>statusHistory\<close>, recording the status
  held before the transition, the acting user and the reason, and afterwards the status is
  the requested target. No request handler modifies or removes an existing entry: across
  any request the history of every booking is a prefix of its history afterwards, and is
  at most one entry longer.
\<close>

theorem updateStatus_appends_one_entry:
  "statusHistory (updateStatus target actor reason clk b) =
     statusHistory b @ [\<lparr>h_status = status b, h_timestamp = clk 0,
                          h_updatedBy = actor, h_reason = reason\<rparr>]
   \<and> status (updateStatus target actor reason clk b) = target
   \<and> (\<forall>r rclk w resp w'. step r rclk w = (resp, w') \<longrightarrow>
         length (bookings w') = length (bookings w) \<and>
         (\<forall>i < length (bookings w).
            prefix (statusHistory (bookings w ! i)) (statusHistory (bookings w' ! i)) \<and>
            length (statusHistory (bookings w' ! i))
              \<le> Suc (length (statusHistory (bookings w ! i)))))"
proof -
  have "\<And>r rclk w resp w'. step r rclk w = (resp, w') \<Longrightarrow>
         length (bookings w') = length (bookings w) \<and>
         (\<forall>i < length (bookings w).
            prefix (statusHistory (bookings w ! i)) (statusHistory (bookings w' ! i)) \<and>
            length (statusHistory (bookings w' ! i))
              \<le> Suc (length (statusHistory (bookings w ! i))))"
    by (drule step_evolves) (simp add: store_evolves_def booking_evolves_def)
  then show ?thesis by simp
qed

text \<open>
  The example booking, pending with an empty history: a direct call of \<open>updateStatus\<close>, and
  the admin's cancel request, which the cancel route accepts. Each leaves one entry that
  holds the prior status \<open>pending\<close>, the actor and the reason.
\<close>

theorem updateStatus_appends_one_entry_witness:
  "statusHistory (updateStatus ''accepted'' 1 ''Provider accepted the booking'' (ticking 500)
       ex_booking)
     = [\<lparr>h_status = ''pending'', h_timestamp = 500, h_updatedBy = 1,
          h_reason = ''Provider accepted the booking''\<rparr>]
   \<and> status (updateStatus ''accepted'' 1 ''Provider accepted the booking'' (ticking 500)
       ex_booking) = ''accepted''
   \<and> 0 < length (bookings ex_world)
   \<and> statusHistory (bookings ex_world ! 0) = []
   \<and> fst (step (Cancel ex_admin 0 ''changed plans'') (ticking 1000) ex_world)
       = (200, ''Booking cancelled successfully'')
   \<and> statusHistory (bookings (snd (step (Cancel ex_admin 0 ''changed plans'') (ticking 1000)
       ex_world)) ! 0)
       = [\<lparr>h_status = ''pending'', h_timestamp = 1001, h_updatedBy = 2,
            h_reason = ''changed plans''\<rparr>]
   \<and> prefix (statusHistory (bookings ex_world ! 0))
        (statusHistory (bookings (snd (step (Cancel ex_admin 0 ''changed plans'') (ticking 1000)
           ex_world)) ! 0))"
proof -
  note inst = updateStatus_appends_one_entry
      [of "''accepted''" 1 "''Provider accepted the booking''" "ticking 500" ex_booking]
  have s: "step (Cancel ex_admin 0 ''changed plans'') (ticking 1000) ex_world =
      (fst (step (Cancel ex_admin 0 ''changed plans'') (ticking 1000) ex_world),
       snd (step (Cancel ex_admin 0 ''changed plans'') (ticking 1000) ex_world))" by simp
  have l: "0 < length (bookings ex_world)" by (simp add: ex_world_def)
  from inst have u1: "statusHistory (updateStatus ''accepted'' 1 ''Provider accepted the booking''
       (ticking 500) ex_booking)
     = [\<lparr>h_status = ''pending'', h_timestamp = 500, h_updatedBy = 1,
          h_reason = ''Provider accepted the booking''\<rparr>]"
    by (simp add: ex_booking_def ticking_def)
  from inst have u2: "status (updateStatus ''accepted'' 1 ''Provider accepted the booking''
       (ticking 500) ex_booking) = ''accepted''"
    by blast
  from inst have "\<forall>i < length (bookings ex_world).
      prefix (statusHistory (bookings ex_world ! i))
        (statusHistory (bookings (snd (step (Cancel ex_admin 0 ''changed plans'') (ticking 1000)
           ex_world)) ! i))"
    using s by blast
  with l have p: "prefix (statusHistory (bookings ex_world ! 0))
        (statusHistory (bookings (snd (step (Cancel ex_admin 0 ''changed plans'') (ticking 1000)
           ex_world)) ! 0))"
    by blast
  have h0: "statusHistory (bookings ex_world ! 0) = []"
    by (simp add: ex_world_def ex_booking_def)
  have run: "step (Cancel ex_admin 0 ''changed plans'') (ticking 1000) ex_world =
      ((200, ''Booking cancelled successfully''),
       save_booking 0
         ((updateStatus ''cancelled'' 2 ''changed plans'' (later 1 (ticking 1000)) ex_booking)
            \<lparr>cancellation := Some \<lparr>cancelledBy = 2, cancelledAt = 1002,
                                    c_reason = ''changed plans''\<rparr>\<rparr>)
         ex_world)"
    by (simp add: cancel_route_def withBooking_def requireBookingAccess_def findById_def
        canBeCancelled_def trim_def is_space_def
        ex_world_def ex_booking_def ex_admin_def ticking_def Let_def)
  have r1: "fst (step (Cancel ex_admin 0 ''changed plans'') (ticking 1000) ex_world)
       = (200, ''Booking cancelled successfully'')"
    by (subst run) simp
  have h1: "statusHistory (bookings (snd (step (Cancel ex_admin 0 ''changed plans'')
       (ticking 1000) ex_world)) ! 0)
       = [\<lparr>h_status = ''pending'', h_timestamp = 1001, h_updatedBy = 2,
            h_reason = ''changed plans''\<rparr>]"
    by (subst run) (simp add: ex_world_def ex_booking_def later_def ticking_def)
  from u1 u2 l h0 r1 h1 p show ?thesis by blast
qed

section \<open>Total earnings\<close>

lemma totalEarnings_addEarnings:
  "0 \<le> a \<Longrightarrow> totalEarnings (wallet (providerInfo u))
     \<le> totalEarnings (wallet (providerInfo (addEarnings a u)))"
  by (simp add: addEarnings_def)

lemma totalEarnings_addPendingEarnings [simp]:
  "totalEarnings (wallet (providerInfo (addPendingEarnings a u))) =
   totalEarnings (wallet (providerInfo u))"
  by (simp add: addPendingEarnings_def)

lemma totalEarnings_confirmEarnings [simp]:
  "totalEarnings (wallet (providerInfo (confirmEarnings a u))) =
   totalEarnings (wallet (providerInfo u))"
  by (simp add: confirmEarnings_def)

lemma totalEarnings_credit_wallet:
  "0 \<le> a \<Longrightarrow> credit_wallet (Some a) u = Some u' \<Longrightarrow>
     totalEarnings (wallet (providerInfo u)) \<le> totalEarnings (wallet (providerInfo u'))"
  by (auto simp: credit_wallet_def)

lemma totalEarnings_debit_wallet [simp]:
  "totalEarnings (wallet (providerInfo (debit_wallet d u))) =
   totalEarnings (wallet (providerInfo u))"
  by (simp add: debit_wallet_def)

text \<open>
  C9. The operations that change a wallet never lower its \<open>totalEarnings\<close>. \<open>addEarnings\<close>
  with a non-negative amount does not lower it; \<open>addPendingEarnings\<close> and \<open>confirmEarnings\<close>
  leave it unchanged; the wallet credit of the payment route and of the payment webhook
  (\<open>credit_wallet\<close>) with a non-negative amount does not lower it; the deduction of a
  withdrawal (\<open>debit_wallet\<close>) leaves it unchanged, and so does the withdrawal route as a
  whole; and every request of the booking, dispute-resolution and payment routes leaves
  every user's \<open>totalEarnings\<close> at least as large as before. The requests are those of
  \<open>step\<close>; the profile route, which stores a \<open>providerInfo\<close> object taken from the request
  body, is not one of the operations listed and is not among them.
\<close>

theorem totalEarnings_never_decreases:
  "(0 \<le> a \<longrightarrow> totalEarnings (wallet (providerInfo u))
                \<le> totalEarnings (wallet (providerInfo (addEarnings a u))))
   \<and> totalEarnings (wallet (providerInfo (addPendingEarnings a u))) =
       totalEarnings (wallet (providerInfo u))
   \<and> totalEarnings (wallet (providerInfo (confirmEarnings a u))) =
       totalEarnings (wallet (providerInfo u))
   \<and> (0 \<le> a \<and> credit_wallet (Some a) u = Some u' \<longrightarrow>
         totalEarnings (wallet (providerInfo u)) \<le> totalEarnings (wallet (providerInfo u')))
   \<and> totalEarnings (wallet (providerInfo (debit_wallet a u))) =
       totalEarnings (wallet (providerInfo u))
   \<and> (\<forall>ru amount m wid w resp w'.
         withdraw_route ru amount m wid w = (resp, w') \<longrightarrow>
         length (users w') = length (users w) \<and>
         (\<forall>i < length (users w).
            totalEarnings (wallet (providerInfo (users w' ! i))) =
            totalEarnings (wallet (providerInfo (users w ! i)))))
   \<and> (\<forall>r clk w resp w'.
         step r clk w = (resp, w') \<longrightarrow>
         length (users w') = length (users w) \<and>
         (\<forall>i < length (users w).
            totalEarnings (wallet (providerInfo (users w ! i)))
              \<le> totalEarnings (wallet (providerInfo (users w' ! i)))))"
proof -
  have wd: "\<And>ru amount m wid w resp w'.
         withdraw_route ru amount m wid w = (resp, w') \<Longrightarrow>
         length (users w') = length (users w) \<and>
         (\<forall>i < length (users w).
            totalEarnings (wallet (providerInfo (users w' ! i))) =
            totalEarnings (wallet (providerInfo (users w ! i))))"
    by (drule withdraw_refused) simp
  have st: "\<And>r clk w resp w'.
         step r clk w = (resp, w') \<Longrightarrow>
         length (users w') = length (users w) \<and>
         (\<forall>i < length (users w).
            totalEarnings (wallet (providerInfo (users w ! i)))
              \<le> totalEarnings (wallet (providerInfo (users w' ! i))))"
    by (drule step_earnings) (simp add: earnings_grow_def)
  have prim: "0 \<le> a \<longrightarrow> totalEarnings (wallet (providerInfo u))
                \<le> totalEarnings (wallet (providerInfo (addEarnings a u)))"
    by (simp add: totalEarnings_addEarnings)
  have cr: "0 \<le> a \<and> credit_wallet (Some a) u = Some u' \<longrightarrow>
         totalEarnings (wallet (providerInfo u)) \<le> totalEarnings (wallet (providerInfo u'))"
    using totalEarnings_credit_wallet by blast
  from prim cr wd st show ?thesis by simp
qed

text \<open>
  The example provider, with \<open>totalEarnings\<close> 102: \<open>addEarnings\<close> and the wallet credit with
  250 raise it to 352; the provider's request to withdraw 100, which the route answers with
  403, and the delivery of the success event for the stored payment, which is answered
  with 400, leave it at 102.
\<close>

theorem totalEarnings_never_decreases_witness:
  "(0::real) \<le> 250
   \<and> totalEarnings (wallet (providerInfo (ex_users ! 1))) = 102
   \<and> totalEarnings (wallet (providerInfo (addEarnings 250 (ex_users ! 1)))) = 352
   \<and> credit_wallet (Some 250) (ex_users ! 1) = Some (addEarnings 250 (ex_users ! 1))
   \<and> fst (withdraw_route ex_provider 100 ''bank_transfer'' ''WD_1'' ex_world)
       = (403, ''Only providers can request withdrawals'')
   \<and> totalEarnings (wallet (providerInfo
         (users (snd (withdraw_route ex_provider 100 ''bank_transfer'' ''WD_1'' ex_world)) ! 1))) = 102
   \<and> fst (step (StripeEvent ex_event) (ticking 0) ex_paid_world) = webhook_error
   \<and> totalEarnings (wallet (providerInfo (users ex_paid_world ! 1)))
       \<le> totalEarnings (wallet (providerInfo
            (users (snd (step (StripeEvent ex_event) (ticking 0) ex_paid_world)) ! 1)))
   \<and> totalEarnings (wallet (providerInfo
            (users (snd (step (StripeEvent ex_event) (ticking 0) ex_paid_world)) ! 1))) = 102"
proof -
  note inst = totalEarnings_never_decreases
      [of 250 "ex_users ! 1" "addEarnings 250 (ex_users ! 1)"]
  have a: "(0::real) \<le> 250" by simp
  have t0: "totalEarnings (wallet (providerInfo (ex_users ! 1))) = 102"
    by (simp add: ex_users_def ex_user_def)
  have cw: "credit_wallet (Some 250) (ex_users ! 1) = Some (addEarnings 250 (ex_users ! 1))"
    by (simp add: credit_wallet_def addEarnings_def ex_users_def ex_user_def)
  from inst a have "totalEarnings (wallet (providerInfo (ex_users ! 1)))
      \<le> totalEarnings (wallet (providerInfo (addEarnings 250 (ex_users ! 1))))"
    by blast
  have t1: "totalEarnings (wallet (providerInfo (addEarnings 250 (ex_users ! 1)))) = 352"
    by (simp add: ex_users_def ex_user_def addEarnings_def)
  have len: "1 < length (users ex_world)" "1 < length (users ex_paid_world)"
    by (simp_all add: ex_world_def ex_paid_world_def ex_users_def)
  have wd_resp: "fst (withdraw_route ex_provider 100 ''bank_transfer'' ''WD_1'' ex_world)
       = (403, ''Only providers can request withdrawals'')"
    by (simp add: withdraw_route_def requireRole_def findOne_by_uid_undefined ex_provider_def
        Let_def)
  have wd_eq: "withdraw_route ex_provider 100 ''bank_transfer'' ''WD_1'' ex_world =
      (fst (withdraw_route ex_provider 100 ''bank_transfer'' ''WD_1'' ex_world),
       snd (withdraw_route ex_provider 100 ''bank_transfer'' ''WD_1'' ex_world))" by simp
  from inst wd_eq have "\<forall>i < length (users ex_world).
      totalEarnings (wallet (providerInfo
         (users (snd (withdraw_route ex_provider 100 ''bank_transfer'' ''WD_1'' ex_world)) ! i))) =
      totalEarnings (wallet (providerInfo (users ex_world ! i)))"
    by blast
  with len(1) have wd_te: "totalEarnings (wallet (providerInfo
         (users (snd (withdraw_route ex_provider 100 ''bank_transfer'' ''WD_1'' ex_world)) ! 1))) = 102"
    by (simp add: ex_world_def ex_users_def ex_user_def)
  have st_eq: "step (StripeEvent ex_event) (ticking 0) ex_paid_world =
      (fst (step (StripeEvent ex_event) (ticking 0) ex_paid_world),
       snd (step (StripeEvent ex_event) (ticking 0) ex_paid_world))" by simp
  from inst st_eq have "\<forall>i < length (users ex_paid_world).
      totalEarnings (wallet (providerInfo (users ex_paid_world ! i)))
        \<le> totalEarnings (wallet (providerInfo
             (users (snd (step (StripeEvent ex_event) (ticking 0) ex_paid_world)) ! i)))"
    by blast
  with len(2) have grow: "totalEarnings (wallet (providerInfo (users ex_paid_world ! 1)))
       \<le> totalEarnings (wallet (providerInfo
            (users (snd (step (StripeEvent ex_event) (ticking 0) ex_paid_world)) ! 1)))"
    by blast
  have ev: "step (StripeEvent ex_event) (ticking 0) ex_paid_world =
      (webhook_error, ex_paid_world\<lparr>payments := [ex_payment\<lparr>p_status := ''completed''\<rparr>]\<rparr>)"
    by (simp add: handle_stripe_event_def findOne_def findById_def populate_def
        credit_wallet_def no_such_path_def save_payment_def save_booking_def
        ex_paid_world_def ex_world_def ex_payment_def ex_event_def ex_booking_def
        ex_users_def Let_def)
  have resp: "fst (step (StripeEvent ex_event) (ticking 0) ex_paid_world) = webhook_error"
    by (subst ev) simp
  have after: "totalEarnings (wallet (providerInfo
            (users (snd (step (StripeEvent ex_event) (ticking 0) ex_paid_world)) ! 1))) = 102"
    by (subst ev) (simp add: ex_paid_world_def ex_world_def ex_users_def ex_user_def)
  from a t0 t1 cw wd_resp wd_te resp grow after show ?thesis by blast
qed

section \<open>Withdrawals\<close>




section \<open>Completing a booking\<close>

text \<open>
  C4. The complete route is meant to record the completion of an \<open>in_progress\<close> booking and
  to add the price to the provider's pending balance, and its handler is written to do so.
  The request never reaches that part of the handler: the chain in front of the route
  compares the caller's id string with \<open>booking.provider.toString()\<close> on a booking whose
  \<open>provider\<close> has been populated, so the booking's own provider is answered with 403
  \<open>Access denied\<close>, and an admin, who passes the chain, has no booking role and is answered
  with 403 by the handler. On the example booking, in progress since time 0, the
  provider's request to complete is refused with \<open>Access denied\<close> and nothing is stored:
  the status stays \<open>in_progress\<close>, no completion time or deadline is set, and the pending
  balance stays 0. For every caller, booking and store the route answers 403, 404 or 500
  and leaves the store as it was.
\<close>

theorem complete_route_refuses_provider:
  "status (bookings ex_started_world ! 0) = ''in_progress''
   \<and> provider (bookings ex_started_world ! 0) = ru_id ex_provider
   \<and> role (users ex_started_world ! ru_id ex_provider) = Provider
   \<and> complete_route ex_provider 0 (Some ''done'') None (ticking 5430000) ex_started_world
       = ((403, ''Access denied''), ex_started_world)
   \<and> completedAt (execution (bookings ex_started_world ! 0)) = None
   \<and> autoConfirmAt (confirmation (bookings ex_started_world ! 0)) = None
   \<and> pendingBalance (wallet (providerInfo (users ex_started_world ! 1))) = 0
   \<and> snd (complete_route ru bid notes photos clk w) = w
   \<and> fst (fst (complete_route ru bid notes photos clk w)) \<in> {403, 404, 500}"
proof -
  have ex: "complete_route ex_provider 0 (Some ''done'') None (ticking 5430000) ex_started_world
       = ((403, ''Access denied''), ex_started_world)"
    by (simp add: complete_route_def withBooking_def findById_def populate_def
        requireBookingAccess_def document_toString_neq
        ex_started_world_def ex_world_def ex_booking_def ex_users_def ex_provider_def Let_def)
  have facts: "status (bookings ex_started_world ! 0) = ''in_progress''"
    "provider (bookings ex_started_world ! 0) = ru_id ex_provider"
    "role (users ex_started_world ! ru_id ex_provider) = Provider"
    "completedAt (execution (bookings ex_started_world ! 0)) = None"
    "autoConfirmAt (confirmation (bookings ex_started_world ! 0)) = None"
    "pendingBalance (wallet (providerInfo (users ex_started_world ! 1))) = 0"
    by (simp_all add: ex_started_world_def ex_world_def ex_booking_def ex_users_def
        ex_user_def ex_provider_def)
  have "complete_route ru bid notes photos clk w =
      (fst (complete_route ru bid notes photos clk w),
       snd (complete_route ru bid notes photos clk w))" by simp
  from complete_refused [OF this]
  have gen: "snd (complete_route ru bid notes photos clk w) = w"
    "fst (fst (complete_route ru bid notes photos clk w)) \<in> {403, 404, 500}"
    by (auto simp: null_error_def)
  from ex facts gen show ?thesis by simp
qed

section \<open>Confirmation\<close>

lemma confirmations_zero: "confirmations bid rs w = 0"
proof (induction rs arbitrary: w)
  case Nil
  show ?case by simp
next
  case (Cons rc rs)
  obtain r clk where rc: "rc = (r, clk)" by (cases rc)
  obtain resp w1 where s: "step r clk w = (resp, w1)" by (cases "step r clk w")
  have "\<not> (is_confirm_of bid r \<and> fst resp = 200)"
  proof (cases r)
    case (Confirm ru bid')
    with s have "confirm_route ru bid' clk w = (resp, w1)" by simp
    from confirm_refused [OF this] show ?thesis by (auto simp: null_error_def)
  qed (simp_all add: is_confirm_of_def)
  with Cons.IH [of w1] rc s show ?case by simp
qed

text \<open>
  C1. The confirm route is written to answer a second confirmation with 400
  \<open>Service already confirmed\<close>, but the request never reaches that test: the chain in front
  of the route compares the caller's id string with \<open>booking.client.toString()\<close> on a
  booking whose \<open>client\<close> has been populated, so the booking's own client is answered with
  403 \<open>Access denied\<close>. On the example booking, completed and already confirmed, the
  client's confirm request is answered with \<open>Access denied\<close>, not with
  \<open>Service already confirmed\<close>. The rest of the claim holds: the refused call changes
  neither the booking nor any wallet. For every caller, booking and store the route
  answers 403, 404 or 500 and leaves the store as it was, so in any sequence of requests
  no confirm request succeeds and \<open>confirmEarnings\<close>, which is called on the successful
  path of this route only, is called at most once per booking.
\<close>

theorem confirm_route_refuses_client:
  "clientConfirmed (confirmation (bookings ex_confirmed_world ! 0))
   \<and> status (bookings ex_confirmed_world ! 0) = ''completed''
   \<and> client (bookings ex_confirmed_world ! 0) = ru_id ex_client
   \<and> role (users ex_confirmed_world ! ru_id ex_client) = Client
   \<and> confirm_route ex_client 0 (ticking 9000) ex_confirmed_world
       = ((403, ''Access denied''), ex_confirmed_world)
   \<and> snd (confirm_route ru bid clk w) = w
   \<and> fst (fst (confirm_route ru bid clk w)) \<in> {403, 404, 500}
   \<and> confirmations bid rs w \<le> 1"
proof -
  have ex: "confirm_route ex_client 0 (ticking 9000) ex_confirmed_world
       = ((403, ''Access denied''), ex_confirmed_world)"
    by (simp add: confirm_route_def withBooking_def findById_def populate_def
        requireBookingAccess_def document_toString_neq
        ex_confirmed_world_def ex_world_def ex_booking_def ex_users_def ex_client_def Let_def)
  have facts: "clientConfirmed (confirmation (bookings ex_confirmed_world ! 0))"
    "status (bookings ex_confirmed_world ! 0) = ''completed''"
    "client (bookings ex_confirmed_world ! 0) = ru_id ex_client"
    "role (users ex_confirmed_world ! ru_id ex_client) = Client"
    by (simp_all add: ex_confirmed_world_def ex_world_def ex_booking_def ex_users_def
        ex_user_def ex_client_def)
  have "confirm_route ru bid clk w =
      (fst (confirm_route ru bid clk w), snd (confirm_route ru bid clk w))" by simp
  from confirm_refused [OF this]
  have gen: "snd (confirm_route ru bid clk w) = w"
    "fst (fst (confirm_route ru bid clk w)) \<in> {403, 404, 500}"
    by (auto simp: null_error_def)
  from ex facts gen show ?thesis by (simp add: confirmations_zero)
qed

section \<open>Payment webhook\<close>





section \<open>Dispute resolution\<close>

text \<open>
  What resolving leaves in the store: the booking with the resolution set and moved back
  to \<open>completed\<close> by \<open>updateStatus\<close>. The booking is saved before the refund payment is
  created, so it is stored whatever becomes of the refund.
\<close>

lemma resolve_dispute_route_booking:
  assumes "ru_role ru = Admin" and "res \<noteq> []"
    and "\<not> (case refund of None \<Rightarrow> False | Some x \<Rightarrow> x < 0)"
    and "findById bid (bookings w) = Some b" and "status b = ''disputed''"
  shows "bookings (snd (resolve_dispute_route ru bid res refund clk w)) ! bid =
      updateStatus ''completed'' (ru_id ru) ''Dispute resolved by admin'' (later 1 clk)
        (b\<lparr>dispute := (dispute b)\<lparr>resolution := Some
              \<lparr>resolvedBy = ru_id ru, resolvedAt = clk 0, resolution_text = trim res,
                refundAmount = (case refund of None \<Rightarrow> 0 | Some x \<Rightarrow> x)\<rparr>\<rparr>\<rparr>)"
  using assms
  by (auto simp: resolve_dispute_route_def requireRole_def Let_def findById_def
        create_payment_def split: option.splits if_splits)

lemma resolve_dispute_route_no_refund:
  assumes "ru_role ru = Admin" and "res \<noteq> []" and "refund = None \<or> refund = Some 0"
    and "findById bid (bookings w) = Some b" and "status b = ''disputed''"
  shows "fst (resolve_dispute_route ru bid res refund clk w) = (200, ''Dispute resolved successfully'')
       \<and> payments (snd (resolve_dispute_route ru bid res refund clk w)) = payments w"
  using assms
  by (auto simp: resolve_dispute_route_def requireRole_def Let_def)

text \<open>
  C3, as amended. For a booking in status \<open>disputed\<close>, resolution by an admin (with a
  resolution text and no negative refund) stores the resolution sub-record and moves the
  status back to \<open>completed\<close>; without a refund, or with a refund of 0, it answers 200 and
  creates no payment. It leaves \<open>clientConfirmed\<close> as it was and sets \<open>autoConfirmAt\<close> to
  48 hours after the resolution. So \<open>shouldAutoConfirm\<close> on the resolved booking is true
  exactly when the booking had not been confirmed before the dispute and the new deadline
  has passed: a resolved booking that was never confirmed is back on the auto-confirm
  path, and one that was confirmed stays off it. The refund payment and manual
  confirmation are left open here.
\<close>

theorem resolve_dispute_route_disputed:
  assumes "ru_role ru = Admin" and "res \<noteq> []"
    and "\<not> (case refund of None \<Rightarrow> False | Some x \<Rightarrow> x < 0)"
    and "findById bid (bookings w) = Some b" and "status b = ''disputed''"
  shows "(let b' = bookings (snd (resolve_dispute_route ru bid res refund clk w)) ! bid in
          resolution (dispute b') = Some
             \<lparr>resolvedBy = ru_id ru, resolvedAt = clk 0, resolution_text = trim res,
               refundAmount = (case refund of None \<Rightarrow> 0 | Some x \<Rightarrow> x)\<rparr>
          \<and> status b' = ''completed''
          \<and> clientConfirmed (confirmation b') = clientConfirmed (confirmation b)
          \<and> autoConfirmAt (confirmation b') = Some (clk 3 + hours48)
          \<and> shouldAutoConfirm now b' =
              (\<not> clientConfirmed (confirmation b) \<and> clk 3 + hours48 \<le> now))
       \<and> (refund = None \<or> refund = Some 0 \<longrightarrow>
            fst (resolve_dispute_route ru bid res refund clk w)
              = (200, ''Dispute resolved successfully'') \<and>
            payments (snd (resolve_dispute_route ru bid res refund clk w)) = payments w)"
proof -
  note bk = resolve_dispute_route_booking [OF assms, of clk]
  have 1: "(let b' = bookings (snd (resolve_dispute_route ru bid res refund clk w)) ! bid in
          resolution (dispute b') = Some
             \<lparr>resolvedBy = ru_id ru, resolvedAt = clk 0, resolution_text = trim res,
               refundAmount = (case refund of None \<Rightarrow> 0 | Some x \<Rightarrow> x)\<rparr>
          \<and> status b' = ''completed''
          \<and> clientConfirmed (confirmation b') = clientConfirmed (confirmation b)
          \<and> autoConfirmAt (confirmation b') = Some (clk 3 + hours48)
          \<and> shouldAutoConfirm now b' =
              (\<not> clientConfirmed (confirmation b) \<and> clk 3 + hours48 \<le> now))"
    unfolding Let_def bk
    by (simp add: shouldAutoConfirm_def updateStatus_autoConfirmAt later_def)
  have 2: "refund = None \<or> refund = Some 0 \<longrightarrow>
            fst (resolve_dispute_route ru bid res refund clk w)
              = (200, ''Dispute resolved successfully'') \<and>
            payments (snd (resolve_dispute_route ru bid res refund clk w)) = payments w"
    using resolve_dispute_route_no_refund [OF assms(1,2) _ assms(4,5)] by blast
  from 1 2 show ?thesis by blast
qed

text \<open>
  The claim as stated fails. The example booking is under dispute and was never confirmed
  by the client. The admin resolves the dispute at time 7000 without a refund; the route
  answers 200. At the new deadline, 48 hours after the resolution, \<open>shouldAutoConfirm\<close> is
  true of the resolved booking.
\<close>

theorem resolved_booking_auto_confirm_counterexample:
  "status (bookings ex_disputed_world ! 0) = ''disputed''
   \<and> fst (resolve_dispute_route ex_admin 0 ''settled'' None (ticking 7000) ex_disputed_world)
       = (200, ''Dispute resolved successfully'')
   \<and> resolution (dispute (bookings
        (snd (resolve_dispute_route ex_admin 0 ''settled'' None (ticking 7000) ex_disputed_world)) ! 0))
       = Some \<lparr>resolvedBy = 2, resolvedAt = 7000, resolution_text = ''settled'', refundAmount = 0\<rparr>
   \<and> shouldAutoConfirm (7003 + hours48) (bookings
        (snd (resolve_dispute_route ex_admin 0 ''settled'' None (ticking 7000) ex_disputed_world)) ! 0)"
  by (simp add: resolve_dispute_route_def requireRole_def findById_def shouldAutoConfirm_def
      updateStatus_def later_def trim_def is_space_def
      ex_disputed_world_def ex_world_def ex_booking_def ex_admin_def ticking_def Let_def)

theorem resolve_dispute_route_disputed_witness:
  "ru_role ex_admin = Admin
   \<and> findById 0 (bookings ex_disputed_world) = Some (bookings ex_disputed_world ! 0)
   \<and> status (bookings ex_disputed_world ! 0) = ''disputed''
   \<and> \<not> clientConfirmed (confirmation (bookings ex_disputed_world ! 0))
   \<and> (let b' = bookings (snd (resolve_dispute_route ex_admin 0 ''settled'' None (ticking 7000)
                    ex_disputed_world)) ! 0 in
        resolution (dispute b') = Some
           \<lparr>resolvedBy = 2, resolvedAt = 7000, resolution_text = ''settled'', refundAmount = 0\<rparr>
        \<and> status b' = ''completed''
        \<and> \<not> clientConfirmed (confirmation b')
        \<and> autoConfirmAt (confirmation b') = Some (7003 + hours48)
        \<and> \<not> shouldAutoConfirm (7002 + hours48) b'
        \<and> shouldAutoConfirm (7003 + hours48) b')
   \<and> fst (resolve_dispute_route ex_admin 0 ''settled'' None (ticking 7000) ex_disputed_world)
       = (200, ''Dispute resolved successfully'')
   \<and> payments (snd (resolve_dispute_route ex_admin 0 ''settled'' None (ticking 7000)
        ex_disputed_world)) = []"
proof -
  have h: "ru_role ex_admin = Admin" "''settled'' \<noteq> []"
    "\<not> (case (None :: real option) of None \<Rightarrow> False | Some x \<Rightarrow> x < 0)"
    "findById 0 (bookings ex_disputed_world) = Some (bookings ex_disputed_world ! 0)"
    "status (bookings ex_disputed_world ! 0) = ''disputed''"
    by (simp_all add: ex_admin_def findById_def ex_disputed_world_def)
  have nc: "\<not> clientConfirmed (confirmation (bookings ex_disputed_world ! 0))"
    by (simp add: ex_disputed_world_def ex_booking_def)
  note early = resolve_dispute_route_disputed [OF h, of "ticking 7000" "7002 + hours48"]
  note late = resolve_dispute_route_disputed [OF h, of "ticking 7000" "7003 + hours48"]
  have tr: "trim ''settled'' = ''settled''" by (simp add: trim_def is_space_def)
  have ps: "payments ex_disputed_world = []" by (simp add: ex_disputed_world_def ex_world_def)
  from early late nc show ?thesis using h(1,4,5)
    by (simp add: Let_def tr ps ex_admin_def ticking_def)
qed

section \<open>Role checks on transitions\<close>







end
